theory Spec2Isabelle
  imports Complex_Main
begin

section \<open>Data model\<close>

text \<open>
  The pricing code works on two kinds of numbers. A \<^verbatim>\<open>bigint\<close> is an unbounded integer
  and is modelled as \<^typ>\<open>int\<close>; its division truncates toward zero. A \<^verbatim>\<open>number\<close> is
  modelled by the real number it denotes: sums, products, comparisons, \<^verbatim>\<open>Math.min\<close>,
  \<^verbatim>\<open>Math.max\<close> and \<^verbatim>\<open>Math.floor\<close> are the exact ones, so the rounding of the
  binary64 format and its overflow are outside the model. The one place where the code
  can divide by zero, the price impact of a quote, keeps the special values of the
  format (type \<open>number\<close> below).
\<close>

datatype error = InvalidSupplyError | InvalidTradeError | SlippageExceededError | RangeError

text \<open>
  The errors are the three \<^verbatim>\<open>throw new Error(...)\<close> of the bonding curve, named as the
  specification names them (\<open>'Supply cannot exceed total supply'\<close>,
  \<open>'Invalid trade amount'\<close>, \<open>'Price impact too high: ...'\<close>), and the
  \<^verbatim>\<open>RangeError\<close> that a \<^verbatim>\<open>bigint\<close> division by zero raises.
\<close>

datatype number = Finite real | PosInfinity | NegInfinity | NaN

text \<open>\<^verbatim>\<open>Number(a) / Number(b)\<close> for two \<^verbatim>\<open>bigint\<close>s: a zero divisor is \<open>+0\<close>.\<close>

definition number_div :: "int \<Rightarrow> int \<Rightarrow> number" where
  "number_div a b =
     (if b \<noteq> 0 then Finite (real_of_int a / real_of_int b)
      else if 0 < a then PosInfinity
      else if a < 0 then NegInfinity
      else NaN)"

text \<open>\<^verbatim>\<open>x > y\<close> where \<open>y\<close> is finite: false on \<open>NaN\<close>.\<close>

fun number_gt :: "number \<Rightarrow> real \<Rightarrow> bool" where
  "number_gt (Finite x) y = (y < x)"
| "number_gt PosInfinity y = True"
| "number_gt NegInfinity y = False"
| "number_gt NaN y = False"

text \<open>\<^verbatim>\<open>a / b\<close> on \<^verbatim>\<open>bigint\<close>, for \<open>b \<noteq> 0\<close>: the quotient truncated toward zero.\<close>

definition bigint_div :: "int \<Rightarrow> int \<Rightarrow> int" where
  "bigint_div a b = sgn a * sgn b * (\<bar>a\<bar> div \<bar>b\<bar>)"

record CreatorCoin =
  address :: string
  creatorId :: string
  symbol :: string
  coinName :: string
  coinTotalSupply :: int
  circulatingSupply :: int
  currentPrice :: int
  marketCap :: int
  tradingVolume24h :: int
  priceChange24h :: real
  isActive :: bool

text \<open>The fields of \<^verbatim>\<open>AdvancedBondingCurveCalculator\<close>, set by its constructor.\<close>

record Calculator =
  baseK :: real
  totalSupply :: int
  maxSlippage :: real
  creatorMultiplier :: real
  volumeMultiplier :: real
  timeDecayFactor :: real

definition defaultBondingCurve :: Calculator where
  "defaultBondingCurve =
     \<lparr>baseK = 1 / 10000, totalSupply = 10 ^ 9, maxSlippage = 5 / 100,
      creatorMultiplier = 1, volumeMultiplier = 1, timeDecayFactor = 95 / 100\<rparr>"

record TradeQuote =
  inputAmount :: int
  outputAmount :: int
  priceImpact :: number
  minimumReceived :: int
  fee :: int
  deadline :: int

section \<open>The bonding curve\<close>

text \<open>
  An optional \<^verbatim>\<open>bigint\<close> argument is tested by its truth value: \<^verbatim>\<open>undefined\<close> and
  \<open>0n\<close> are both false. A \<^verbatim>\<open>Date\<close> is its time in milliseconds; \<open>now\<close> is the value
  of \<^verbatim>\<open>Date.now()\<close>, read once per call of the model.
\<close>

definition truthy :: "int option \<Rightarrow> bool" where
  "truthy v = (case v of None \<Rightarrow> False | Some n \<Rightarrow> n \<noteq> 0)"

definition toETH :: "int \<Rightarrow> real" where
  "toETH v = real_of_int v / 10 ^ 18"

definition hoursSince :: "int \<Rightarrow> int \<Rightarrow> real" where
  "hoursSince now t = real_of_int (now - t) / (1000 * 60 * 60)"

definition calculateDynamicK ::
  "Calculator \<Rightarrow> CreatorCoin option \<Rightarrow> int option \<Rightarrow> int option \<Rightarrow> int \<Rightarrow> real" where
  "calculateDynamicK c coinData volume lastTradeTime now =
     (let k = baseK c;
          k = (if truthy volume then
                 (let volumeETH = toETH (the volume) in
                  if volumeETH > 100 then k * (12 / 10)
                  else if volumeETH < 1 then k * (8 / 10)
                  else k)
               else k);
          k = (case lastTradeTime of
                 None \<Rightarrow> k
               | Some t \<Rightarrow>
                   (let hoursSinceLastTrade = hoursSince now t in
                    if hoursSinceLastTrade > 24
                    then k * timeDecayFactor c ^ nat \<lfloor>hoursSinceLastTrade / 24\<rfloor>
                    else k));
          k = (case coinData of
                 None \<Rightarrow> k
               | Some coin \<Rightarrow> if toETH (marketCap coin) > 1000 then k * (11 / 10) else k)
      in max k (baseK c * (1 / 10)))"

definition calculatePrice ::
  "Calculator \<Rightarrow> int \<Rightarrow> CreatorCoin option \<Rightarrow> int option \<Rightarrow> int option \<Rightarrow> int \<Rightarrow> error + int" where
  "calculatePrice c supply coinData volume lastTradeTime now =
     (if supply \<ge> totalSupply c then Inl InvalidSupplyError
      else
        (let supplyNumber = real_of_int supply;
             totalSupplyNumber = real_of_int (totalSupply c);
             dynamicK = calculateDynamicK c coinData volume lastTradeTime now;
             basePrice = dynamicK * supplyNumber ^ 2 / (totalSupplyNumber - supplyNumber);
             creatorPrice = basePrice * creatorMultiplier c;
             volumePrice = creatorPrice * volumeMultiplier c
         in Inr \<lfloor>volumePrice * 10 ^ 18\<rfloor>))"

section \<open>Trade quotes\<close>

definition calculateAdjustedMaxSlippage ::
  "Calculator \<Rightarrow> CreatorCoin option \<Rightarrow> int option \<Rightarrow> real" where
  "calculateAdjustedMaxSlippage c coinData volume =
     (let adjustedSlippage = maxSlippage c;
          adjustedSlippage =
            (if truthy volume then
               (let volumeETH = toETH (the volume) in
                if volumeETH > 100 then adjustedSlippage * (8 / 10) else adjustedSlippage)
             else adjustedSlippage);
          adjustedSlippage =
            (case coinData of
               None \<Rightarrow> adjustedSlippage
             | Some coin \<Rightarrow>
                 if toETH (marketCap coin) < 10 then adjustedSlippage * (15 / 10)
                 else adjustedSlippage)
      in min adjustedSlippage (1 / 10))"

definition calculateDynamicFeeRate :: "CreatorCoin option \<Rightarrow> int option \<Rightarrow> real" where
  "calculateDynamicFeeRate coinData volume =
     (let feeRate = 1 / 100;
          feeRate =
            (if truthy volume then
               (let volumeETH = toETH (the volume) in
                if volumeETH > 1000 then feeRate * (5 / 10)
                else if volumeETH > 100 then feeRate * (75 / 100)
                else feeRate)
             else feeRate);
          feeRate =
            (case coinData of
               None \<Rightarrow> feeRate
             | Some coin \<Rightarrow> if toETH (marketCap coin) < 1 then feeRate * 2 else feeRate)
      in max feeRate (5 / 1000))"

text \<open>
  \<open>random\<close> is the value of \<^verbatim>\<open>Math.random()\<close>. Each \<^verbatim>\<open>throw\<close> is an \<open>Inl\<close>; an
  error of \<open>calculatePrice\<close> passes through.
\<close>

definition calculateTradePrice ::
  "Calculator \<Rightarrow> int \<Rightarrow> int \<Rightarrow> bool \<Rightarrow> CreatorCoin option \<Rightarrow> int option \<Rightarrow> int option \<Rightarrow>
   int \<Rightarrow> real \<Rightarrow> error + TradeQuote" where
  "calculateTradePrice c currentSupply tradeAmount isBuy coinData volume lastTradeTime now random =
     (let newSupply = (if isBuy then currentSupply + tradeAmount else currentSupply - tradeAmount)
      in
      if newSupply < 0 \<or> newSupply > totalSupply c then Inl InvalidTradeError
      else
        (case calculatePrice c currentSupply coinData volume lastTradeTime now of
           Inl e \<Rightarrow> Inl e
         | Inr currentPrice' \<Rightarrow>
        (case calculatePrice c newSupply coinData volume lastTradeTime now of
           Inl e \<Rightarrow> Inl e
         | Inr newPrice \<Rightarrow>
        (let priceImpact' =
               (if isBuy then number_div (newPrice - currentPrice') currentPrice'
                else number_div (currentPrice' - newPrice) currentPrice');
             adjustedMaxSlippage = calculateAdjustedMaxSlippage c coinData volume
         in
         if number_gt priceImpact' adjustedMaxSlippage then Inl SlippageExceededError
         else
           (let inputAmount' = tradeAmount;
                outputAmount' = bigint_div (tradeAmount * currentPrice') (10 ^ 18);
                feeRate = calculateDynamicFeeRate coinData volume;
                fee' = bigint_div (outputAmount' * \<lfloor>feeRate * 10000\<rfloor>) 10000;
                minimumReceived' = outputAmount' - fee';
                baseDeadline = 1800;
                randomDelay = \<lfloor>random * 300\<rfloor>;
                deadline' = \<lfloor>real_of_int now / 1000\<rfloor> + baseDeadline + randomDelay
            in Inr \<lparr>inputAmount = inputAmount', outputAmount = outputAmount',
                     priceImpact = priceImpact', minimumReceived = minimumReceived',
                     fee = fee', deadline = deadline'\<rparr>)))))"



section \<open>Optimal trade size\<close>

lemma bigint_div_2_bounds:
  "low \<le> high \<Longrightarrow> low \<le> bigint_div (low + high) 2 \<and> bigint_div (low + high) 2 \<le> high"
  by (cases "0 \<le> low + high") (simp_all add: bigint_div_def sgn_if, presburger+)

text \<open>
  The \<^verbatim>\<open>while (low <= high)\<close> loop of the binary search. A \<^verbatim>\<open>throw\<close> of
  \<open>calculatePrice\<close> inside the loop leaves the function.
\<close>

function optimalTradeSizeLoop ::
  "Calculator \<Rightarrow> int \<Rightarrow> CreatorCoin option \<Rightarrow> int option \<Rightarrow> int option \<Rightarrow> int \<Rightarrow>
   int \<Rightarrow> int \<Rightarrow> int \<Rightarrow> int \<Rightarrow> error + int" where
  "optimalTradeSizeLoop c supply coinData volume lastTradeTime now maxPrice low high optimalSize =
     (if low \<le> high then
        (case calculatePrice c (supply + bigint_div (low + high) 2)
                coinData volume lastTradeTime now of
           Inl e \<Rightarrow> Inl e
         | Inr newPrice \<Rightarrow>
             if newPrice \<le> maxPrice
             then optimalTradeSizeLoop c supply coinData volume lastTradeTime now maxPrice
                    (bigint_div (low + high) 2 + 1) high (bigint_div (low + high) 2)
             else optimalTradeSizeLoop c supply coinData volume lastTradeTime now maxPrice
                    low (bigint_div (low + high) 2 - 1) optimalSize)
      else Inr optimalSize)"
  by pat_completeness auto
termination
  apply (relation "measure (\<lambda>(c, supply, coinData, volume, lastTradeTime, now, maxPrice,
                            low, high, optimalSize). nat (high - low + 1))")
    apply simp
   apply (frule bigint_div_2_bounds, simp)
  apply (frule bigint_div_2_bounds, simp)
  done

definition calculateOptimalTradeSize ::
  "Calculator \<Rightarrow> int \<Rightarrow> real \<Rightarrow> CreatorCoin option \<Rightarrow> int option \<Rightarrow> int option \<Rightarrow> int \<Rightarrow>
   error + int" where
  "calculateOptimalTradeSize c supply maxPriceImpact coinData volume lastTradeTime now =
     (case calculatePrice c supply coinData volume lastTradeTime now of
        Inl e \<Rightarrow> Inl e
      | Inr currentPrice' \<Rightarrow>
          (let maxPrice =
                 bigint_div (currentPrice' * \<lfloor>(1 + maxPriceImpact) * 10 ^ 18\<rfloor>) (10 ^ 18)
           in optimalTradeSizeLoop c supply coinData volume lastTradeTime now maxPrice
                0 (totalSupply c - supply) 0))"

section \<open>Liquidity score\<close>

text \<open>
  \<open>calculateLiquidityScore\<close> of the bonding curve. The field \<open>priceChange24h\<close> of a
  \<open>CreatorCoin\<close> is a \<^verbatim>\<open>number\<close>, so the test against \<^verbatim>\<open>undefined\<close> holds whenever coin
  data is given.
\<close>

definition calculateLiquidityScore ::
  "CreatorCoin option \<Rightarrow> int option \<Rightarrow> int option \<Rightarrow> int \<Rightarrow> real" where
  "calculateLiquidityScore coinData volume lastTradeTime now =
     (let score = 0;
          score = (if truthy volume then score + min (toETH (the volume) / 10) 40 else score);
          score = (case coinData of
                     None \<Rightarrow> score
                   | Some coin \<Rightarrow> score + min (toETH (marketCap coin) / 100) 30);
          score = (case lastTradeTime of
                     None \<Rightarrow> score
                   | Some t \<Rightarrow>
                       (let hoursSinceLastTrade = hoursSince now t in
                        if hoursSinceLastTrade < 1 then score + 20
                        else if hoursSinceLastTrade < 24 then score + 15
                        else if hoursSinceLastTrade < 168 then score + 10
                        else score + 5));
          score = (case coinData of
                     None \<Rightarrow> score
                   | Some coin \<Rightarrow>
                       (let priceChange = \<bar>priceChange24h coin\<bar> in
                        if priceChange < 5 / 100 then score + 10
                        else if priceChange < 1 / 10 then score + 7
                        else if priceChange < 2 / 10 then score + 4
                        else score + 1))
      in min score 100)"

text \<open>The private \<open>calculateLiquidityScore\<close> of the pricing engine.\<close>

definition PricingEngine_calculateLiquidityScore :: "CreatorCoin \<Rightarrow> real" where
  "PricingEngine_calculateLiquidityScore coin =
     (let volumeScore = min (toETH (tradingVolume24h coin) / 1000) 40;
          marketCapScore = min (toETH (marketCap coin) / 10000) 30;
          priceStabilityScore = max 0 (20 - \<bar>priceChange24h coin\<bar>);
          supplyScore = min (toETH (circulatingSupply coin) / 1000000) 10
      in min (volumeScore + marketCapScore + priceStabilityScore + supplyScore) 100)"

text \<open>
  The liquidity score in the words of the specification: volume in whole units divided
  by 10, at most 40; market cap in whole units divided by 100, at most 30; recency of
  the last trade in tiers; stability in tiers of the absolute 24h change, which is a
  percentage (12.5 means 12.5 percent); the sum capped at 100.
\<close>

definition liquidityScore_spec :: "CreatorCoin \<Rightarrow> int \<Rightarrow> int \<Rightarrow> real" where
  "liquidityScore_spec coin lastTradeTime now =
     min (min (toETH (tradingVolume24h coin) / 10) 40
          + min (toETH (marketCap coin) / 100) 30
          + (if hoursSince now lastTradeTime < 1 then 20
             else if hoursSince now lastTradeTime < 24 then 15
             else if hoursSince now lastTradeTime < 168 then 10
             else 5)
          + (if \<bar>priceChange24h coin\<bar> < 5 then 10
             else if \<bar>priceChange24h coin\<bar> < 10 then 7
             else if \<bar>priceChange24h coin\<bar> < 20 then 4
             else 1))
         100"

section \<open>Risk assessment\<close>

datatype riskLevel = low | medium | high

record RiskAssessment =
  level :: riskLevel
  factors :: "string list"

text \<open>
  \<open>assessRisk\<close> runs four conditions in turn on the pair of \<open>riskLevel\<close> and
  \<open>riskFactors\<close>; each one is a function here, in the order of the code.
\<close>

definition volatilityCheck :: "real \<Rightarrow> RiskAssessment \<Rightarrow> RiskAssessment" where
  "volatilityCheck volatilityScore r =
     (if volatilityScore > 70
      then \<lparr>level = high, factors = factors r @ [''High price volatility'']\<rparr>
      else if volatilityScore > 40
      then \<lparr>level = medium, factors = factors r @ [''Moderate price volatility'']\<rparr>
      else r)"

definition liquidityCheck :: "real \<Rightarrow> RiskAssessment \<Rightarrow> RiskAssessment" where
  "liquidityCheck liquidityScore r =
     (if liquidityScore < 30
      then \<lparr>level = (if level r = low then medium else high),
            factors = factors r @ [''Low liquidity'']\<rparr>
      else r)"

definition priceChangeCheck :: "CreatorCoin \<Rightarrow> RiskAssessment \<Rightarrow> RiskAssessment" where
  "priceChangeCheck coin r =
     (if \<bar>priceChange24h coin\<bar> > 50
      then \<lparr>level = high, factors = factors r @ [''Extreme price movement'']\<rparr>
      else r)"

definition volumeCheck :: "CreatorCoin \<Rightarrow> RiskAssessment \<Rightarrow> RiskAssessment" where
  "volumeCheck coin r =
     (if real_of_int (tradingVolume24h coin) < 10 ^ 18
      then \<lparr>level = (if level r = low then medium else high),
            factors = factors r @ [''Low trading volume'']\<rparr>
      else r)"

definition assessRisk :: "CreatorCoin \<Rightarrow> real \<Rightarrow> real \<Rightarrow> RiskAssessment" where
  "assessRisk coin volatilityScore liquidityScore =
     (let r = \<lparr>level = low, factors = []\<rparr>;
          r = volatilityCheck volatilityScore r;
          r = liquidityCheck liquidityScore r;
          r = priceChangeCheck coin r;
          r = volumeCheck coin r
      in if factors r = [] then r\<lparr>factors := [''Stable market conditions'']\<rparr> else r)"

section \<open>Market conditions\<close>

datatype trend = bullish | bearish | neutral

record MarketConditions =
  overallTrend :: trend
  totalMarketCap :: int
  totalVolume :: int
  activeTraders :: nat
  averageTradeSize :: int
  priceVolatility :: real

text \<open>
  \<open>updateMarketConditions\<close> stores its result in the engine; the model returns it. The
  field \<^verbatim>\<open>marketCap\<close> of the result is named \<open>totalMarketCap\<close>, after the local it is
  built from. On the empty list the \<^verbatim>\<open>bigint\<close> division by \<open>BigInt(0)\<close> raises.
\<close>

definition updateMarketConditions :: "CreatorCoin list \<Rightarrow> error + MarketConditions" where
  "updateMarketConditions coins =
     (let totalMarketCap' = foldl (\<lambda>sum coin. sum + marketCap coin) 0 coins;
          totalVolume' = foldl (\<lambda>sum coin. sum + tradingVolume24h coin) 0 coins;
          averagePriceChange =
            foldl (\<lambda>sum coin. sum + priceChange24h coin) 0 coins / real (length coins)
      in if int (length coins) = 0 then Inl RangeError
         else Inr \<lparr>overallTrend =
                      (if averagePriceChange > 5 then bullish
                       else if averagePriceChange < - 5 then bearish else neutral),
                    totalMarketCap = totalMarketCap',
                    totalVolume = totalVolume',
                    activeTraders = length coins,
                    averageTradeSize = bigint_div totalVolume' (int (length coins)),
                    priceVolatility = \<bar>averagePriceChange\<bar>\<rparr>)"

section \<open>Example inputs\<close>


definition tinyCurve :: Calculator where
  "tinyCurve = defaultBondingCurve\<lparr>baseK := 1, totalSupply := 3\<rparr>"

definition binaryCurve :: Calculator where
  "binaryCurve = defaultBondingCurve\<lparr>baseK := 1, totalSupply := 2 ^ 30\<rparr>"

definition exampleCoin :: CreatorCoin where
  "exampleCoin =
     \<lparr>address = ''0xc0'', creatorId = ''0xc1'', symbol = ''EX'', coinName = ''Example'',
      coinTotalSupply = 10 ^ 9, circulatingSupply = 0, currentPrice = 10 ^ 15,
      marketCap = 2500 * 10 ^ 18, tradingVolume24h = 500 * 10 ^ 18, priceChange24h = 3,
      isActive = True\<rparr>"

section \<open>Properties of the curve\<close>

lemma calculateDynamicK_pos:
  assumes "0 < baseK c"
  shows "0 < calculateDynamicK c coinData volume lastTradeTime now"
proof -
  from assms have "0 < baseK c * (1 / 10)" by simp
  also have "\<dots> \<le> calculateDynamicK c coinData volume lastTradeTime now"
    by (simp add: calculateDynamicK_def Let_def)
  finally show ?thesis .
qed

lemma default_fields:
  "baseK defaultBondingCurve = 1 / 10000"
  "totalSupply defaultBondingCurve = 1000000000"
  "maxSlippage defaultBondingCurve = 5 / 100"
  "creatorMultiplier defaultBondingCurve = 1"
  "volumeMultiplier defaultBondingCurve = 1"
  by (simp_all add: defaultBondingCurve_def)

lemma calculateDynamicK_default:
  "calculateDynamicK defaultBondingCurve None None None now = 1 / 10000"
  by (simp add: calculateDynamicK_def defaultBondingCurve_def truthy_def)

text \<open>
  Claim C2. Whatever the optional inputs are (coin data present or absent, any 24h
  volume, any last-trade time, any clock value) and whatever the curve parameters are,
  the dynamic k is at least a tenth of the base k.
\<close>

theorem calculateDynamicK_floor:
  "baseK c * (1 / 10) \<le> calculateDynamicK c coinData volume lastTradeTime now"
  by (simp add: calculateDynamicK_def Let_def)


subsection \<open>Monotonicity\<close>






section \<open>Properties of trade quotes\<close>



text \<open>
  Claim C6. On the default curve the buy of 1000 at supply 0 does not return a quote:
  the current price is 0, the price impact is a positive number divided by zero, and
  the slippage check rejects it.
\<close>

theorem first_buy_is_rejected:
  "calculatePrice defaultBondingCurve 0 None None None now = Inr 0 \<and>
   calculatePrice defaultBondingCurve 1000 None None None now = Inr 100000100000 \<and>
   number_div (100000100000 - 0) 0 = PosInfinity \<and>
   calculateTradePrice defaultBondingCurve 0 1000 True None None None now random
     = Inl SlippageExceededError"
  by (simp add: calculateTradePrice_def calculatePrice_def calculateDynamicK_default
      calculateAdjustedMaxSlippage_def default_fields number_div_def truthy_def Let_def)

subsection \<open>Fees\<close>

lemma calculatePrice_nonneg:
  assumes "0 < baseK c" "0 \<le> creatorMultiplier c" "0 \<le> volumeMultiplier c"
    and "calculatePrice c s coinData volume lastTradeTime now = Inr p"
  shows "0 \<le> p"
proof -
  define X where "X = calculateDynamicK c coinData volume lastTradeTime now * (real_of_int s)\<^sup>2
               / (real_of_int (totalSupply c) - real_of_int s)
               * creatorMultiplier c * volumeMultiplier c * 10 ^ 18"
  have s: "s < totalSupply c" using assms(4) by (simp add: calculatePrice_def split: if_splits)
  have p: "p = \<lfloor>X\<rfloor>" using assms(4) s by (simp add: calculatePrice_def Let_def X_def)
  have k: "0 \<le> calculateDynamicK c coinData volume lastTradeTime now"
    using calculateDynamicK_pos [OF assms(1), of coinData volume lastTradeTime now] by simp
  have "0 \<le> calculateDynamicK c coinData volume lastTradeTime now * (real_of_int s)\<^sup>2
               / (real_of_int (totalSupply c) - real_of_int s)"
    using k s by (intro divide_nonneg_nonneg mult_nonneg_nonneg) simp_all
  then have "0 \<le> X"
    unfolding X_def using assms(2,3) by (intro mult_nonneg_nonneg) simp_all
  then show ?thesis unfolding p by simp
qed

lemma calculateDynamicFeeRate_bounds:
  "5 / 1000 \<le> calculateDynamicFeeRate coinData volume \<and>
   calculateDynamicFeeRate coinData volume \<le> 2 / 100"
  by (simp add: calculateDynamicFeeRate_def Let_def split: option.splits)

lemma feeBasisPoints_bounds:
  "50 \<le> \<lfloor>calculateDynamicFeeRate coinData volume * 10000\<rfloor> \<and>
   \<lfloor>calculateDynamicFeeRate coinData volume * 10000\<rfloor> \<le> 200"
proof -
  have "50 \<le> calculateDynamicFeeRate coinData volume * 10000"
    and "calculateDynamicFeeRate coinData volume * 10000 \<le> 200"
    using calculateDynamicFeeRate_bounds [of coinData volume] by simp_all
  then show ?thesis by (simp add: le_floor_iff floor_le_iff)
qed

lemma bigint_div_nonneg: "0 \<le> a \<Longrightarrow> 0 < b \<Longrightarrow> bigint_div a b = a div b"
  by (cases "a = 0") (simp_all add: bigint_div_def)

lemma fee_bounds:
  assumes "0 \<le> out" "0 \<le> bp" "bp \<le> 10000"
  shows "0 \<le> bigint_div (out * bp) 10000 \<and> bigint_div (out * bp) 10000 \<le> out"
proof -
  have nn: "0 \<le> out * bp" using assms by simp
  have "out * bp \<le> out * 10000" using assms by (intro mult_left_mono) simp_all
  then have "(out * bp) div 10000 \<le> (out * 10000) div 10000" by (rule zdiv_mono1) simp
  moreover have "0 \<le> (out * bp) div 10000" using nn by (simp add: pos_imp_zdiv_nonneg_iff)
  ultimately show ?thesis using nn by (simp add: bigint_div_nonneg)
qed

lemma tinyCurve_fields:
  "baseK tinyCurve = 1" "totalSupply tinyCurve = 3" "maxSlippage tinyCurve = 5 / 100"
  "creatorMultiplier tinyCurve = 1" "volumeMultiplier tinyCurve = 1"
  by (simp_all add: tinyCurve_def defaultBondingCurve_def)

lemma binaryCurve_fields:
  "baseK binaryCurve = 1" "totalSupply binaryCurve = 1073741824"
  "maxSlippage binaryCurve = 5 / 100"
  "creatorMultiplier binaryCurve = 1" "volumeMultiplier binaryCurve = 1"
  by (simp_all add: binaryCurve_def defaultBondingCurve_def)

lemma calculateDynamicK_no_inputs:
  "calculateDynamicK c None None None now = max (baseK c) (baseK c * (1 / 10))"
  by (simp add: calculateDynamicK_def truthy_def)

text \<open>
  Claim C10, as stated, fails: the trade amount is any \<^verbatim>\<open>bigint\<close>, and a buy of \<open>-1\<close>
  at supply 2 on the curve with base k 1 and cap 3 returns a quote whose output amount
  is \<open>-4\<close> and whose fee is 0, so the fee exceeds the output amount and the minimum
  received is negative.
\<close>

theorem negative_trade_quote:
  "calculateTradePrice tinyCurve 2 (- 1) True None None None 0 0
     = Inr \<lparr>inputAmount = - 1, outputAmount = - 4, priceImpact = Finite (- (7 / 8)),
            minimumReceived = - 4, fee = 0, deadline = 1800\<rparr> \<and>
   \<not> (0::int) \<le> - 4 \<and> (- 4::int) < 0"
  by (simp add: calculateTradePrice_def calculatePrice_def calculateDynamicK_no_inputs
      calculateAdjustedMaxSlippage_def calculateDynamicFeeRate_def tinyCurve_fields
      number_div_def bigint_div_def truthy_def Let_def)

text \<open>
  Claim C10, amended. For every quote returned for a non-negative trade amount on a
  curve with positive base k and non-negative multipliers, the fee rate lies in
  \<open>[0.005, 0.02]\<close>, the fee is at most the output amount, and the minimum received,
  the output amount less the fee, is non-negative.
\<close>

theorem quote_fee_within_output:
  assumes "calculateTradePrice c currentSupply tradeAmount isBuy coinData volume lastTradeTime
             now random = Inr q"
    and "0 \<le> tradeAmount" "0 < baseK c" "0 \<le> creatorMultiplier c" "0 \<le> volumeMultiplier c"
  shows "5 / 1000 \<le> calculateDynamicFeeRate coinData volume \<and>
         calculateDynamicFeeRate coinData volume \<le> 2 / 100 \<and>
         fee q = bigint_div
                   (outputAmount q * \<lfloor>calculateDynamicFeeRate coinData volume * 10000\<rfloor>) 10000 \<and>
         fee q \<le> outputAmount q \<and>
         minimumReceived q = outputAmount q - fee q \<and> 0 \<le> minimumReceived q"
proof -
  from assms(1) obtain cp where
    cp: "calculatePrice c currentSupply coinData volume lastTradeTime now = Inr cp"
    and out: "outputAmount q = bigint_div (tradeAmount * cp) (10 ^ 18)"
    and fee: "fee q = bigint_div
                (outputAmount q * \<lfloor>calculateDynamicFeeRate coinData volume * 10000\<rfloor>) 10000"
    and mr: "minimumReceived q = outputAmount q - fee q"
    by (auto simp add: calculateTradePrice_def Let_def split: sum.splits if_splits)
  have "0 \<le> cp" using calculatePrice_nonneg [OF assms(3,4,5) cp] .
  then have "0 \<le> tradeAmount * cp" using assms(2) by simp
  then have o: "0 \<le> outputAmount q"
    by (simp add: out bigint_div_nonneg pos_imp_zdiv_nonneg_iff)
  have "fee q \<le> outputAmount q"
    unfolding fee
    using fee_bounds [OF o, of "\<lfloor>calculateDynamicFeeRate coinData volume * 10000\<rfloor>"]
      feeBasisPoints_bounds [of coinData volume] by simp
  then show ?thesis using calculateDynamicFeeRate_bounds [of coinData volume] fee mr by simp
qed

lemma binaryCurve_prices:
  "calculatePrice binaryCurve 536870912 None None None 0 = Inr (536870912 * 10 ^ 18)"
  "calculatePrice binaryCurve 536871912 None None None 0 = Inr 536873912007450594474737485"
  by (simp_all add: calculatePrice_def calculateDynamicK_no_inputs binaryCurve_fields)

theorem quote_fee_within_output_witness:
  "\<exists>q. calculateTradePrice binaryCurve 536870912 1000 True None None None 0 0 = Inr q \<and>
       outputAmount q = 536870912000 \<and> fee q = 5368709120 \<and>
       minimumReceived q = 531502202880 \<and> fee q \<le> outputAmount q \<and> 0 \<le> minimumReceived q"
proof -
  have q: "calculateTradePrice binaryCurve 536870912 1000 True None None None 0 0
     = Inr \<lparr>inputAmount = 1000, outputAmount = 536870912000,
            priceImpact = number_div (536873912007450594474737485 - 536870912 * 10 ^ 18)
                            (536870912 * 10 ^ 18),
            minimumReceived = 531502202880, fee = 5368709120, deadline = 1800\<rparr>"
    by (simp add: calculateTradePrice_def binaryCurve_prices
        calculateAdjustedMaxSlippage_def calculateDynamicFeeRate_def binaryCurve_fields
        number_div_def bigint_div_def truthy_def Let_def)
  have "(0::int) \<le> 1000" "0 < baseK binaryCurve" "0 \<le> creatorMultiplier binaryCurve"
    "0 \<le> volumeMultiplier binaryCurve"
    by (simp_all add: binaryCurve_fields)
  from quote_fee_within_output [OF q this] show ?thesis using q by simp
qed

section \<open>Properties of the optimal trade size\<close>

lemma price_near_cap:
  "calculatePrice defaultBondingCurve 999999999 None None None now
     = Inr 99999999800000000100000000000000"
  by (simp add: calculatePrice_def calculateDynamicK_default default_fields)

lemma price_at_cap:
  "calculatePrice defaultBondingCurve 1000000000 None None None now = Inl InvalidSupplyError"
  by (simp add: calculatePrice_def default_fields)

text \<open>
  Claim C4. The binary search starts with \<open>high = totalSupply - supply\<close>, a trade size
  at which \<open>calculatePrice\<close> throws. On the default curve, at the supply one below the
  cap and the default maximum impact of 0.01, the search accepts size 0, then asks for
  the price at the cap and fails with \<open>InvalidSupplyError\<close>, where the largest size
  that keeps the price within the bound is 0.
\<close>

theorem optimalTradeSize_throws_below_cap:
  "calculateOptimalTradeSize defaultBondingCurve 999999999 (1 / 100) None None None now
     = Inl InvalidSupplyError"
  by (simp add: calculateOptimalTradeSize_def price_near_cap price_at_cap default_fields
      bigint_div_def Let_def)

section \<open>Properties of the scores\<close>

lemma exampleCoin_fields:
  "marketCap exampleCoin = 2500 * 10 ^ 18" "tradingVolume24h exampleCoin = 500 * 10 ^ 18"
  "priceChange24h exampleCoin = 3" "circulatingSupply exampleCoin = 0"
  by (simp_all add: exampleCoin_def)

text \<open>
  Claim C7. For a coin with a 24h volume of 500 whole units, a market cap of 2500 whole
  units, a last trade half an hour ago and a 24h change of 3 percent, the weighted sum
  of the specification is \<open>40 + 25 + 20 + 10 = 95\<close>. The bonding curve's
  \<open>calculateLiquidityScore\<close> compares the change with 0.05, 0.1 and 0.2, gives 1 point
  for stability and returns 86; the pricing engine's own \<open>calculateLiquidityScore\<close>
  returns 17.75.
\<close>

theorem liquidityScore_differs_from_spec:
  "calculateLiquidityScore (Some exampleCoin) (Some (tradingVolume24h exampleCoin)) (Some 0) 1800000
     = 86 \<and>
   liquidityScore_spec exampleCoin 0 1800000 = 95 \<and>
   PricingEngine_calculateLiquidityScore exampleCoin = 71 / 4"
  by (simp add: calculateLiquidityScore_def liquidityScore_spec_def
      PricingEngine_calculateLiquidityScore_def exampleCoin_fields truthy_def toETH_def
      hoursSince_def Let_def)

subsection \<open>Risk assessment\<close>

lemma later_checks_keep_high:
  assumes "level r = high"
  shows "level (liquidityCheck liquidityScore r) = high"
    and "level (priceChangeCheck coin r) = high"
    and "level (volumeCheck coin r) = high"
  using assms by (simp_all add: liquidityCheck_def priceChangeCheck_def volumeCheck_def)

text \<open>
  Claim C8. Each condition that follows the volatility condition maps the level
  \<open>high\<close> to \<open>high\<close>. So within one call of \<open>assessRisk\<close>, once the level is \<open>high\<close>
  after the volatility, the liquidity or the price-change condition, the returned level
  is \<open>high\<close>; in particular it is \<open>high\<close> when the volatility score is above 70 or the
  absolute 24h change is above 50.
\<close>

theorem assessRisk_high_is_kept:
  "(level r = high \<longrightarrow>
      level (liquidityCheck liquidityScore r) = high \<and>
      level (priceChangeCheck coin r) = high \<and>
      level (volumeCheck coin r) = high) \<and>
   (level (volatilityCheck volatilityScore \<lparr>level = low, factors = []\<rparr>) = high \<or>
    level (liquidityCheck liquidityScore
             (volatilityCheck volatilityScore \<lparr>level = low, factors = []\<rparr>)) = high \<or>
    level (priceChangeCheck coin
             (liquidityCheck liquidityScore
                (volatilityCheck volatilityScore \<lparr>level = low, factors = []\<rparr>))) = high
    \<longrightarrow> level (assessRisk coin volatilityScore liquidityScore) = high) \<and>
   (volatilityScore > 70 \<or> \<bar>priceChange24h coin\<bar> > 50
    \<longrightarrow> level (assessRisk coin volatilityScore liquidityScore) = high)"
proof -
  define r1 where "r1 = volatilityCheck volatilityScore \<lparr>level = low, factors = []\<rparr>"
  define r2 where "r2 = liquidityCheck liquidityScore r1"
  define r3 where "r3 = priceChangeCheck coin r2"
  define r4 where "r4 = volumeCheck coin r3"
  have res: "level (assessRisk coin volatilityScore liquidityScore) = level r4"
    by (simp add: assessRisk_def Let_def r1_def r2_def r3_def r4_def)
  have s12: "level r1 = high \<Longrightarrow> level r2 = high"
    and s23: "level r2 = high \<Longrightarrow> level r3 = high"
    and s34: "level r3 = high \<Longrightarrow> level r4 = high"
    unfolding r2_def r3_def r4_def by (simp_all add: later_checks_keep_high)
  have v: "volatilityScore > 70 \<Longrightarrow> level r1 = high"
    by (simp add: r1_def volatilityCheck_def)
  have p: "\<bar>priceChange24h coin\<bar> > 50 \<Longrightarrow> level r3 = high"
    by (simp add: r3_def priceChangeCheck_def)
  have A: "level r = high \<longrightarrow>
      level (liquidityCheck liquidityScore r) = high \<and>
      level (priceChangeCheck coin r) = high \<and>
      level (volumeCheck coin r) = high"
    by (simp add: later_checks_keep_high)
  have B: "level r1 = high \<or> level r2 = high \<or> level r3 = high
    \<longrightarrow> level (assessRisk coin volatilityScore liquidityScore) = high"
    using res s12 s23 s34 by auto
  have C: "volatilityScore > 70 \<or> \<bar>priceChange24h coin\<bar> > 50
    \<longrightarrow> level (assessRisk coin volatilityScore liquidityScore) = high"
    using res s12 s23 s34 v p by auto
  from A B C show ?thesis unfolding r1_def r2_def r3_def by (intro conjI)
qed

theorem assessRisk_high_is_kept_witness:
  "level (assessRisk (exampleCoin\<lparr>priceChange24h := 60\<rparr>) 80 50) = high \<and>
   factors (assessRisk (exampleCoin\<lparr>priceChange24h := 60\<rparr>) 80 50)
     = [''High price volatility'', ''Extreme price movement'']"
proof -
  have f: "factors (assessRisk (exampleCoin\<lparr>priceChange24h := 60\<rparr>) 80 50)
     = [''High price volatility'', ''Extreme price movement'']"
    by (simp add: assessRisk_def volatilityCheck_def liquidityCheck_def priceChangeCheck_def
        volumeCheck_def exampleCoin_def Let_def)
  have "(80::real) > 70 \<or> \<bar>priceChange24h (exampleCoin\<lparr>priceChange24h := 60\<rparr>)\<bar> > 50"
    by simp
  with assessRisk_high_is_kept [of _ 50 "exampleCoin\<lparr>priceChange24h := 60\<rparr>" 80]
  show ?thesis using f by blast
qed

section \<open>Properties of the market conditions\<close>

text \<open>
  Claim C9. For a list of one coin, \<open>updateMarketConditions\<close> returns market conditions
  whose total market cap is the coin's market cap and whose average trade size is the
  coin's 24h volume: the total volume divided by \<open>BigInt(1)\<close>.
\<close>

theorem single_coin_aggregate:
  "\<exists>m. updateMarketConditions [coin] = Inr m \<and>
       totalMarketCap m = marketCap coin \<and> totalVolume m = tradingVolume24h coin \<and>
       averageTradeSize m = tradingVolume24h coin"
  by (simp add: updateMarketConditions_def bigint_div_def mult_sgn_abs Let_def)

end
